theory Spec2Isabelle
  imports Complex_Main "HOL-Library.Log_Nat"
begin

section \<open>Data model\<close>

text \<open>
  The incident pipeline of QPORT: the classification client
  (\<^verbatim>\<open>processIncidentWithAI\<close>), the diagnostics battery (\<^verbatim>\<open>TestRunner.runSuite\<close>) and
  the orchestrating hook (\<^verbatim>\<open>useQPort\<close>: \<^verbatim>\<open>stats\<close>, \<^verbatim>\<open>health\<close>, \<^verbatim>\<open>addIncident\<close>,
  \<^verbatim>\<open>updateStatus\<close>, \<^verbatim>\<open>runDiagnostics\<close>).

  A finite JavaScript number is the rational it denotes (every finite double is one, and
  comparisons are exact on them). Where the code divides, multiplies or subtracts, the
  result goes through an explicit model of double-precision rounding.
\<close>

text \<open>
  Modelled from the spec: the module \<^verbatim>\<open>types\<close> (the declarations of \<^verbatim>\<open>Severity\<close>,
  \<^verbatim>\<open>ProcessedIncident\<close>, \<^verbatim>\<open>TestResult\<close>, \<^verbatim>\<open>DashboardStats\<close>, \<^verbatim>\<open>SystemHealth\<close>) is not
  part of the sources. \<^verbatim>\<open>Severity\<close> is the enumeration CRITICAL, MAJOR, MINOR whose members
  are the upper-case labels the classification backend is instructed to emit; the
  remaining shapes are read off the object literals of the code.
\<close>

definition Severity_CRITICAL :: string where
  "Severity_CRITICAL = ''CRITICAL''"

definition Severity_MAJOR :: string where
  "Severity_MAJOR = ''MAJOR''"

definition Severity_MINOR :: string where
  "Severity_MINOR = ''MINOR''"

datatype Status = ACTIVE | DISPATCHED | SOLVED | ERROR

text \<open>
  A JavaScript number: a finite binary64 value, given by the rational it denotes (the two
  zeros are not told apart), an infinity, or \<^verbatim>\<open>NaN\<close>.
\<close>

datatype js_number = Finite rat | PlusInfinity | MinusInfinity | NaN

record Coords =
  lat :: rat
  lng :: rat

record GroundingSource =
  title :: string
  uri :: string

text \<open>
  \<^verbatim>\<open>ProcessedIncident\<close>. The fallback object of the client has no \<^verbatim>\<open>processing_latency\<close>
  and no \<^verbatim>\<open>grounding_sources\<close> property, and \<^verbatim>\<open>coords\<close> is whatever the payload
  carried, so the three are optional.
\<close>

record Incident =
  incident_id :: string
  timestamp :: string
  summary :: string
  incident_type :: string
  severity :: string
  priority_score :: js_number
  coords :: "Coords option"
  status :: Status
  processing_latency :: "int option"
  grounding_sources :: "GroundingSource list option"

record DashboardStats =
  total_count :: nat
  critical :: nat
  dispatched :: nat
  solved :: nat

section \<open>Dashboard statistics\<close>

text \<open>
  \<^verbatim>\<open>stats\<close> of \<^verbatim>\<open>useQPort\<close>: a memo over the incident list, so a function of it.
  The field \<^verbatim>\<open>total\<close> is \<open>total_count\<close> here (\<open>total\<close> is a constant of HOL).
\<close>

definition stats :: "Incident list \<Rightarrow> DashboardStats" where
  "stats incidents =
     (let active = filter (\<lambda>i. status i \<noteq> SOLVED) incidents in
      \<lparr> total_count = length active,
        critical = length (filter (\<lambda>i. severity i = Severity_CRITICAL) active),
        dispatched = length (filter (\<lambda>i. status i = DISPATCHED) active),
        solved = length (filter (\<lambda>i. status i = SOLVED) incidents) \<rparr>)"

section \<open>JavaScript helpers\<close>

text \<open>
  A thrown value: an \<^verbatim>\<open>Error\<close> with its message and, for the errors of the inference
  SDK, a numeric \<^verbatim>\<open>status\<close> property (absent on every other error).
\<close>

record js_error =
  err_message :: string
  err_status :: "int option"

text \<open>
  \<^verbatim>\<open>x || d\<close> on an optional string: the default is taken when the property is absent
  and when it is the empty string.
\<close>

definition or_string :: "string option \<Rightarrow> string \<Rightarrow> string" where
  "or_string x d = (case x of None \<Rightarrow> d | Some v \<Rightarrow> if v = [] then d else v)"

text \<open>
  \<^verbatim>\<open>Math.max\<close> and \<^verbatim>\<open>Math.min\<close> of two numbers: \<^verbatim>\<open>NaN\<close> when either is, and
  \<^verbatim>\<open>a > b\<close>, which is false when either is \<^verbatim>\<open>NaN\<close>.
\<close>

fun Math_max :: "js_number \<Rightarrow> js_number \<Rightarrow> js_number" where
  "Math_max NaN b = NaN"
| "Math_max a NaN = NaN"
| "Math_max PlusInfinity b = PlusInfinity"
| "Math_max a PlusInfinity = PlusInfinity"
| "Math_max MinusInfinity b = b"
| "Math_max a MinusInfinity = a"
| "Math_max (Finite x) (Finite y) = Finite (if x < y then y else x)"

fun Math_min :: "js_number \<Rightarrow> js_number \<Rightarrow> js_number" where
  "Math_min NaN b = NaN"
| "Math_min a NaN = NaN"
| "Math_min MinusInfinity b = MinusInfinity"
| "Math_min a MinusInfinity = MinusInfinity"
| "Math_min PlusInfinity b = b"
| "Math_min a PlusInfinity = a"
| "Math_min (Finite x) (Finite y) = Finite (if y < x then y else x)"

fun js_greater :: "js_number \<Rightarrow> js_number \<Rightarrow> bool" where
  "js_greater NaN b = False"
| "js_greater a NaN = False"
| "js_greater MinusInfinity b = False"
| "js_greater a PlusInfinity = False"
| "js_greater PlusInfinity b = True"
| "js_greater a MinusInfinity = True"
| "js_greater (Finite x) (Finite y) = (y < x)"

text \<open>\<^verbatim>\<open>Math.round\<close>: the nearest integer, a half going up.\<close>

definition Math_round :: "rat \<Rightarrow> int" where
  "Math_round x = \<lfloor>x + 1 / 2\<rfloor>"

text \<open>
  Double-precision arithmetic, for the two percentages of \<^verbatim>\<open>health\<close> and the latency
  of a classification. A JavaScript number is a binary64 value; \<^verbatim>\<open>/\<close>, \<^verbatim>\<open>*\<close> and \<^verbatim>\<open>-\<close>
  return the exact result rounded to the nearest value with a 53-bit significand, a tie
  going to the even significand. \<open>binary64_exponent x\<close> is the exponent \<open>e\<close> with
  \<open>2\<^sup>e \<le> x < 2\<^sup>e\<^sup>+\<^sup>1\<close> of a positive \<open>x\<close>, and the spacing of the binary64 values there is
  \<open>2\<^sup>e\<^sup>-\<^sup>5\<^sup>2\<close>. The range of the exponent is not modelled in \<open>double_round\<close>: its
  operands here are counters, their ratio times 100 and differences of clock readings,
  far from overflow and underflow.
\<close>

definition round_half_even :: "rat \<Rightarrow> int" where
  "round_half_even y =
     (let n = \<lfloor>y\<rfloor>; f = y - of_int n in
      if f < 1 / 2 then n else if 1 / 2 < f then n + 1 else if even n then n else n + 1)"

definition binary64_exponent :: "rat \<Rightarrow> int" where
  "binary64_exponent x =
     (if 1 \<le> x then bitlen \<lfloor>x\<rfloor> - 1 else - bitlen (\<lceil>1 / x\<rceil> - 1))"

definition double_round :: "rat \<Rightarrow> rat" where
  "double_round x =
     (if x = 0 then 0
      else (let ulp = 2 powi (binary64_exponent \<bar>x\<bar> - 52) in
            sgn x * of_int (round_half_even (\<bar>x\<bar> / ulp)) * ulp))"





text \<open>
  \<^verbatim>\<open>String.prototype.trim\<close> on strings of 8-bit code units: the white space and line
  terminators below U+0100 are TAB, LF, VT, FF, CR, SPACE and NBSP.
\<close>

definition js_whitespace :: "char \<Rightarrow> bool" where
  "js_whitespace c = (of_char c \<in> {9, 10, 11, 12, 13, 32, 160 :: nat})"

definition trim :: "string \<Rightarrow> string" where
  "trim s = rev (dropWhile js_whitespace (rev (dropWhile js_whitespace s)))"

text \<open>
  The binary64 value of an exact rational, with the range of the exponent: below
  \<open>2\<^sup>-\<^sup>1\<^sup>0\<^sup>2\<^sup>2\<close> the spacing stays \<open>2\<^sup>-\<^sup>1\<^sup>0\<^sup>7\<^sup>4\<close>, and a magnitude that rounds to
  \<open>2\<^sup>1\<^sup>0\<^sup>2\<^sup>4\<close> or more is an infinity.
\<close>

definition to_binary64 :: "rat \<Rightarrow> js_number" where
  "to_binary64 v =
     (if \<bar>v\<bar> < 2 powi (- 1022)
      then Finite (sgn v * of_int (round_half_even (\<bar>v\<bar> / 2 powi (- 1074))) * 2 powi (- 1074))
      else if 2 ^ 1024 \<le> \<bar>double_round v\<bar>
      then (if 0 < v then PlusInfinity else MinusInfinity)
      else Finite (double_round v))"

text \<open>
  \<^verbatim>\<open>StringToNumber\<close>, the conversion of a string to a number, on strings of 8-bit code
  units: white space around the literal is dropped; the empty string is 0; a literal is
  a hexadecimal, octal or binary integer (\<^verbatim>\<open>0x\<close>, \<^verbatim>\<open>0o\<close>, \<^verbatim>\<open>0b\<close>, no sign), or an
  optional sign before \<^verbatim>\<open>Infinity\<close> or a decimal literal (digits, an optional fraction,
  an optional exponent); anything else is \<^verbatim>\<open>NaN\<close>. The value is rounded to binary64.
\<close>

definition decimal_digit :: "char \<Rightarrow> bool" where
  "decimal_digit c = (48 \<le> (of_char c :: nat) \<and> (of_char c :: nat) \<le> 57)"

definition digit_value :: "char \<Rightarrow> nat option" where
  "digit_value c =
     (let n = (of_char c :: nat) in
      if 48 \<le> n \<and> n \<le> 57 then Some (n - 48)
      else if 97 \<le> n \<and> n \<le> 102 then Some (n - 87)
      else if 65 \<le> n \<and> n \<le> 70 then Some (n - 55)
      else None)"

fun digits_value :: "nat \<Rightarrow> nat \<Rightarrow> string \<Rightarrow> nat option" where
  "digits_value radix acc [] = Some acc"
| "digits_value radix acc (c # cs) =
     (case digit_value c of
        None \<Rightarrow> None
      | Some d \<Rightarrow> if d < radix then digits_value radix (acc * radix + d) cs else None)"

definition integer_literal :: "nat \<Rightarrow> string \<Rightarrow> nat option" where
  "integer_literal radix ds = (if ds = [] then None else digits_value radix 0 ds)"

definition exponent_part :: "string \<Rightarrow> int option" where
  "exponent_part r =
     (if r = [] then Some 0
      else if hd r = CHR ''e'' \<or> hd r = CHR ''E''
      then (let x = tl r;
                negative = (x \<noteq> [] \<and> hd x = CHR ''-'');
                ds = (if x \<noteq> [] \<and> (hd x = CHR ''-'' \<or> hd x = CHR ''+'') then tl x else x) in
            case integer_literal 10 ds of
              None \<Rightarrow> None
            | Some n \<Rightarrow> Some (if negative then - int n else int n))
      else None)"

definition decimal_literal :: "string \<Rightarrow> rat option" where
  "decimal_literal u =
     (let d1 = takeWhile decimal_digit u;
          r1 = dropWhile decimal_digit u;
          dot = (r1 \<noteq> [] \<and> hd r1 = CHR ''.'');
          d2 = (if dot then takeWhile decimal_digit (tl r1) else []);
          r2 = (if dot then dropWhile decimal_digit (tl r1) else r1) in
      if d1 = [] \<and> d2 = [] then None
      else (case (integer_literal 10 (d1 @ d2), exponent_part r2) of
              (Some m, Some e) \<Rightarrow> Some (of_nat m * 10 powi (e - int (length d2)))
            | _ \<Rightarrow> None))"

definition StringToNumber :: "string \<Rightarrow> js_number" where
  "StringToNumber str =
     (let t = trim str in
      if t = [] then Finite 0
      else if take 2 t = ''0x'' \<or> take 2 t = ''0X''
      then (case integer_literal 16 (drop 2 t) of None \<Rightarrow> NaN | Some n \<Rightarrow> to_binary64 (of_nat n))
      else if take 2 t = ''0o'' \<or> take 2 t = ''0O''
      then (case integer_literal 8 (drop 2 t) of None \<Rightarrow> NaN | Some n \<Rightarrow> to_binary64 (of_nat n))
      else if take 2 t = ''0b'' \<or> take 2 t = ''0B''
      then (case integer_literal 2 (drop 2 t) of None \<Rightarrow> NaN | Some n \<Rightarrow> to_binary64 (of_nat n))
      else (let negative = (hd t = CHR ''-'');
                u = (if hd t = CHR ''-'' \<or> hd t = CHR ''+'' then tl t else t) in
            if u = ''Infinity'' then (if negative then MinusInfinity else PlusInfinity)
            else (case decimal_literal u of
                    None \<Rightarrow> NaN
                  | Some v \<Rightarrow> to_binary64 (if negative then - v else v))))"

text \<open>
  A value as \<^verbatim>\<open>JSON.parse\<close> can give it for a property, or \<^verbatim>\<open>undefined\<close> for a
  property that is absent. An array or object is given by the string it converts to
  (the joined elements of an array, \<^verbatim>\<open>[object Object]\<close> for an object), which is all
  that a numeric conversion reads of it.
\<close>

datatype js_value =
  JUndefined | JNull | JBoolean bool | JNumber js_number | JString string | JComposite string

fun ToBoolean :: "js_value \<Rightarrow> bool" where
  "ToBoolean JUndefined = False"
| "ToBoolean JNull = False"
| "ToBoolean (JBoolean b) = b"
| "ToBoolean (JNumber (Finite x)) = (x \<noteq> 0)"
| "ToBoolean (JNumber NaN) = False"
| "ToBoolean (JNumber n) = True"
| "ToBoolean (JString s) = (s \<noteq> [])"
| "ToBoolean (JComposite s) = True"

fun ToNumber :: "js_value \<Rightarrow> js_number" where
  "ToNumber JUndefined = NaN"
| "ToNumber JNull = Finite 0"
| "ToNumber (JBoolean b) = Finite (if b then 1 else 0)"
| "ToNumber (JNumber n) = n"
| "ToNumber (JString s) = StringToNumber s"
| "ToNumber (JComposite s) = StringToNumber s"

text \<open>\<^verbatim>\<open>x || d\<close> on values.\<close>

definition js_or :: "js_value \<Rightarrow> js_value \<Rightarrow> js_value" where
  "js_or x d = (if ToBoolean x then x else d)"

section \<open>The classification client\<close>

text \<open>
  The parsed payload \<^verbatim>\<open>data\<close>. The code computes with \<^verbatim>\<open>priority_score\<close> only, and
  does not check its type: it is any value. The other properties are only defaulted and
  copied; they are typed as the response schema of the request declares them (strings,
  the nested coordinates), or absent.
\<close>

record Payload =
  data_summary :: "string option"
  data_type :: "string option"
  data_severity :: "string option"
  data_priority_score :: js_value
  data_coords :: "Coords option"

text \<open>A grounding chunk: its \<^verbatim>\<open>web\<close> property, when it has one.\<close>

record WebChunk =
  web_title :: "string option"
  web_uri :: string

text \<open>
  What one pass through the \<^verbatim>\<open>try\<close> block meets: either something in it throws
  (\<^verbatim>\<open>generateContent\<close> rejects, \<^verbatim>\<open>JSON.parse\<close> fails), or the payload is parsed and the
  response carries its optional list of grounding chunks.
\<close>

datatype Outcome = Fails js_error | Parsed Payload "WebChunk option list option"

text \<open>
  Everything one attempt reads from outside: the outcome of the backend call, the two
  readings of \<^verbatim>\<open>performance.now\<close> (binary64 values), and the strings that
  \<^verbatim>\<open>Math.random().toString(36).substr(2, 6).toUpperCase()\<close>,
  \<^verbatim>\<open>Date.now().toString(36).toUpperCase()\<close> and \<^verbatim>\<open>new Date().toISOString()\<close> evaluate to.
\<close>

record Attempt =
  outcome :: Outcome
  startTime :: rat
  endTime :: rat
  random36 :: string
  now36 :: string
  isoTime :: string

text \<open>
  The backend and the clocks: the \<open>n\<close>-th call of \<^verbatim>\<open>generateContent\<close> since start-up,
  with the report text and the grounding flag it is made with.
\<close>

type_synonym World = "nat \<Rightarrow> string \<Rightarrow> bool \<Rightarrow> Attempt"

definition input_invalid :: "string \<Rightarrow> bool" where
  "input_invalid rawText = (trim rawText = [] \<or> length rawText < 5)"

definition extract_sources :: "WebChunk option list option \<Rightarrow> GroundingSource list" where
  "extract_sources chunks =
     (case chunks of
        None \<Rightarrow> []
      | Some cs \<Rightarrow>
          concat (map (\<lambda>chunk. case chunk of
                          None \<Rightarrow> []
                        | Some web \<Rightarrow> [\<lparr> title = or_string (web_title web) ''Source'',
                                        uri = web_uri web \<rparr>]) cs))"

text \<open>The object returned at the end of the \<^verbatim>\<open>try\<close> block.\<close>

definition success_incident :: "Attempt \<Rightarrow> Payload \<Rightarrow> WebChunk option list option \<Rightarrow> Incident" where
  "success_incident a d chunks =
     \<lparr> incident_id = ''INC-'' @ random36 a,
       timestamp = isoTime a,
       summary = or_string (data_summary d) ''Summary unavailable.'',
       incident_type = or_string (data_type d) ''OTHER'',
       severity = or_string (data_severity d) Severity_MINOR,
       priority_score =
         Math_min (Finite 10)
           (Math_max (Finite 1) (ToNumber (js_or (data_priority_score d) (JNumber (Finite 5))))),
       coords = data_coords d,
       status = ACTIVE,
       processing_latency = Some (Math_round (double_round (endTime a - startTime a))),
       grounding_sources = Some (extract_sources chunks) \<rparr>"

text \<open>The object returned at the end of the \<^verbatim>\<open>catch\<close> block.\<close>

definition fallback_incident :: "Attempt \<Rightarrow> Incident" where
  "fallback_incident a =
     \<lparr> incident_id = ''ERR-'' @ now36 a,
       timestamp = isoTime a,
       summary = ''System fault in AI parsing logic.'',
       incident_type = ''OTHER'',
       severity = Severity_MAJOR,
       priority_score = Finite 5,
       coords = Some \<lparr> lat = 377749 / 10000, lng = - (1224194 / 10000) \<rparr>,
       status = ERROR,
       processing_latency = None,
       grounding_sources = None \<rparr>"

text \<open>
  \<^verbatim>\<open>err.status === 429 || !err.status\<close>: the status is 429, or there is none (the
  property is absent, or it is the falsy number 0).
\<close>

definition retryable :: "js_error \<Rightarrow> bool" where
  "retryable err = (err_status err = Some 429 \<or> err_status err = None \<or> err_status err = Some 0)"

text \<open>
  \<^verbatim>\<open>processIncidentWithAI(rawText, useGrounding, retryCount)\<close>. The last argument counts
  the backend calls made so far, and the result carries the new count; \<open>Inl\<close> is the thrown
  error. The back-off delay of a retry only waits and is left out.
\<close>

function processIncidentWithAI ::
  "World \<Rightarrow> string \<Rightarrow> bool \<Rightarrow> nat \<Rightarrow> nat \<Rightarrow> (js_error + Incident) \<times> nat" where
  "processIncidentWithAI world rawText useGrounding retryCount calls =
     (if input_invalid rawText
      then (Inl \<lparr> err_message = ''Input invalid.'', err_status = None \<rparr>, calls)
      else
        (let a = world calls rawText useGrounding in
         case outcome a of
           Parsed d chunks \<Rightarrow> (Inr (success_incident a d chunks), Suc calls)
         | Fails err \<Rightarrow>
             if retryCount < 3 \<and> retryable err
             then processIncidentWithAI world rawText useGrounding (retryCount + 1) (Suc calls)
             else (Inr (fallback_incident a), Suc calls)))"
  by pat_completeness auto
termination
  by (relation "measure (\<lambda>(world, rawText, useGrounding, retryCount, calls). 3 - retryCount)") auto

declare processIncidentWithAI.simps [simp del]

section \<open>The diagnostics battery\<close>

datatype TestStatus = PENDING | PASS | FAIL

text \<open>
  \<^verbatim>\<open>TestResultDetails\<close>, the record of one check (its \<^verbatim>\<open>status\<close> is only ever PASS or
  FAIL), and \<^verbatim>\<open>TestResult\<close>, an entry of the diagnostic log of the hook.
\<close>

record TestResultDetails =
  name :: string
  result_status :: TestStatus
  duration :: rat
  message :: "string option"

record TestResult =
  test_id :: string
  test_name :: string
  test_status :: TestStatus
  test_duration :: int

text \<open>
  \<^verbatim>\<open>runTest(name, fn)\<close>, the helper of \<^verbatim>\<open>runSuite\<close>. The body \<^verbatim>\<open>fn\<close> returns or throws;
  \<^verbatim>\<open>performance.now\<close> is read before and after it. The state is the \<^verbatim>\<open>results\<close> array
  with the number of clock readings taken so far; \<open>clock n\<close> is the \<open>n\<close>-th reading.
\<close>

definition runTest ::
  "(nat \<Rightarrow> rat) \<Rightarrow> string \<Rightarrow> (unit \<Rightarrow> js_error + unit)
     \<Rightarrow> TestResultDetails list \<times> nat \<Rightarrow> TestResultDetails list \<times> nat" where
  "runTest clock nm fn st =
     (let results = fst st; t = snd st; start = clock t in
      case fn () of
        Inr u \<Rightarrow>
          (results @ [\<lparr> name = nm, result_status = PASS,
                        duration = clock (Suc t) - start, message = None \<rparr>], Suc (Suc t))
      | Inl e \<Rightarrow>
          (results @ [\<lparr> name = nm, result_status = FAIL,
                        duration = clock (Suc t) - start, message = Some (err_message e) \<rparr>],
           Suc (Suc t)))"

text \<open>The awaited calls of \<^verbatim>\<open>runTest\<close>, one after the other.\<close>

fun run_checks ::
  "(nat \<Rightarrow> rat) \<Rightarrow> (string \<times> (unit \<Rightarrow> js_error + unit)) list
     \<Rightarrow> TestResultDetails list \<times> nat \<Rightarrow> TestResultDetails list \<times> nat" where
  "run_checks clock [] st = st"
| "run_checks clock (check # rest) st =
     run_checks clock rest (runTest clock (fst check) (snd check) st)"

text \<open>
  The four bodies. The first builds its mock incident with the reading \<open>isoNow\<close> of
  \<^verbatim>\<open>new Date().toISOString()\<close>; the third awaits \<^verbatim>\<open>CacheController.generateHash\<close>, which
  is not part of the sources and is a parameter: it returns a digest or throws.
\<close>

definition data_integrity_check :: "string \<Rightarrow> unit \<Rightarrow> js_error + unit" where
  "data_integrity_check isoNow u =
     (let mock = \<lparr> incident_id = ''TEST'', timestamp = isoNow, summary = ''T'',
                   incident_type = ''FIRE'', severity = Severity_CRITICAL,
                   priority_score = Finite 10,
                   coords = Some \<lparr> lat = 0, lng = 0 \<rparr>, status = ACTIVE,
                   processing_latency = None, grounding_sources = None \<rparr> in
      if incident_id mock = [] \<or> timestamp mock = []
      then Inl \<lparr> err_message = ''Missing required fields'', err_status = None \<rparr>
      else if js_greater (priority_score mock) (Finite 10)
      then Inl \<lparr> err_message = ''Priority score out of bounds'', err_status = None \<rparr>
      else Inr ())"

definition geospatial_check :: "unit \<Rightarrow> js_error + unit" where
  "geospatial_check u =
     (let sf = \<lparr> lat = 377749 / 10000, lng = - (1224194 / 10000) \<rparr>;
          isValid = (\<lambda>l. l > 37 \<and> l < 38) in
      if \<not> isValid (lat sf)
      then Inl \<lparr> err_message = ''Geospatial validation failure'', err_status = None \<rparr>
      else Inr ())"

definition cache_hash_check :: "(string \<Rightarrow> js_error + string) \<Rightarrow> unit \<Rightarrow> js_error + unit" where
  "cache_hash_check generateHash u =
     (case generateHash ''test_payload'' of
        Inl e \<Rightarrow> Inl e
      | Inr hash \<Rightarrow>
          if length hash \<noteq> 64
          then Inl \<lparr> err_message = ''SHA-256 Hash failure'', err_status = None \<rparr>
          else Inr ())"

definition immutability_check :: "unit \<Rightarrow> js_error + unit" where
  "immutability_check u =
     (let original = ACTIVE; next = SOLVED in
      if original = next
      then Inl \<lparr> err_message = ''Mutation detected in reducer logic'', err_status = None \<rparr>
      else Inr ())"

definition suite_checks ::
  "string \<Rightarrow> (string \<Rightarrow> js_error + string) \<Rightarrow> (string \<times> (unit \<Rightarrow> js_error + unit)) list" where
  "suite_checks isoNow generateHash =
     [(''Model Data Integrity'', data_integrity_check isoNow),
      (''Geospatial Bounds Logic'', geospatial_check),
      (''Cache Storage Quota Check'', cache_hash_check generateHash),
      (''State Immutability'', immutability_check)]"

text \<open>
  \<^verbatim>\<open>TestRunner.runSuite\<close>, started when \<open>t\<close> clock readings have been taken; it returns
  the \<^verbatim>\<open>results\<close> array and the number of readings taken.
\<close>

definition runSuite ::
  "(nat \<Rightarrow> rat) \<Rightarrow> string \<Rightarrow> (string \<Rightarrow> js_error + string) \<Rightarrow> nat
     \<Rightarrow> TestResultDetails list \<times> nat" where
  "runSuite clock isoNow generateHash t = run_checks clock (suite_checks isoNow generateHash) ([], t)"

text \<open>\<^verbatim>\<open>suiteResults.every(r => r.status === 'PASS')\<close> of \<^verbatim>\<open>runDiagnostics\<close>.\<close>

definition suitePass :: "TestResultDetails list \<Rightarrow> bool" where
  "suitePass suiteResults = list_all (\<lambda>r. result_status r = PASS) suiteResults"

text \<open>
  The record expected of a check that starts when \<open>t\<close> clock readings have been taken:
  PASS when its body returns, FAIL with the message of the error when it throws, timed by
  its own two readings.
\<close>

definition check_record ::
  "(nat \<Rightarrow> rat) \<Rightarrow> nat \<Rightarrow> string \<times> (unit \<Rightarrow> js_error + unit) \<Rightarrow> TestResultDetails" where
  "check_record clock t check =
     \<lparr> name = fst check,
       result_status = (case snd check () of Inr u \<Rightarrow> PASS | Inl e \<Rightarrow> FAIL),
       duration = clock (Suc t) - clock t,
       message = (case snd check () of Inr u \<Rightarrow> None | Inl e \<Rightarrow> Some (err_message e)) \<rparr>"

section \<open>The orchestrating hook\<close>

text \<open>
  The state of \<^verbatim>\<open>useQPort\<close>: its React state variables (of the preferences only
  \<^verbatim>\<open>searchGrounding\<close> is read), the incident cache of \<^verbatim>\<open>CacheController\<close>, and the number
  of classification requests sent to the backend so far.

  Modelled from the spec: \<^verbatim>\<open>CacheController\<close> (module \<^verbatim>\<open>cacheService\<close>) is not part of the
  sources. Its incident cache maps a fingerprint to one incident; \<^verbatim>\<open>getCachedIncident\<close> is
  the lookup, which changes nothing, and \<^verbatim>\<open>cacheIncident\<close> is the unconditional upsert
  (last write wins). \<^verbatim>\<open>generateHash\<close> is a parameter of the operations below: a function
  of the text alone that returns the digest or throws.
\<close>

record QPortState =
  incidents :: "Incident list"
  isAnalyzing :: bool
  cacheHits :: nat
  totalRequests :: nat
  diagnosticLog :: "TestResult list"
  searchGrounding :: bool
  cache :: "string \<Rightarrow> Incident option"
  backendCalls :: nat

definition getCachedIncident :: "(string \<Rightarrow> Incident option) \<Rightarrow> string \<Rightarrow> Incident option" where
  "getCachedIncident c hash = c hash"

definition cacheIncident ::
  "(string \<Rightarrow> Incident option) \<Rightarrow> string \<Rightarrow> Incident \<Rightarrow> (string \<Rightarrow> Incident option)" where
  "cacheIncident c hash incident = c(hash \<mapsto> incident)"

definition initial_state :: "bool \<Rightarrow> QPortState" where
  "initial_state grounding =
     \<lparr> incidents = [], isAnalyzing = False, cacheHits = 0, totalRequests = 0,
       diagnosticLog = [], searchGrounding = grounding, cache = Map.empty, backendCalls = 0 \<rparr>"

text \<open>
  The \<^verbatim>\<open>try\<close> block of \<^verbatim>\<open>addIncident\<close>: \<open>Inl\<close> is the error it throws, and the state is
  the one reached when it returns or throws. One submission is run to its end before the
  next one starts. The fire-and-forget calls to the cloud sink change no state of the
  hook and are left out.
\<close>

definition addIncident_try ::
  "World \<Rightarrow> (string \<Rightarrow> js_error + string) \<Rightarrow> string \<Rightarrow> QPortState
     \<Rightarrow> (js_error + Incident) \<times> QPortState" where
  "addIncident_try world generateHash rawText s =
     (case generateHash rawText of
        Inl e \<Rightarrow> (Inl e, s)
      | Inr hash \<Rightarrow>
          (case getCachedIncident (cache s) hash of
             Some cached \<Rightarrow>
               (Inr cached,
                s \<lparr> cacheHits := cacheHits s + 1,
                    incidents :=
                      (case find (\<lambda>i. incident_id i = incident_id cached) (incidents s) of
                         Some exists \<Rightarrow>
                           cached # filter (\<lambda>i. incident_id i \<noteq> incident_id cached) (incidents s)
                       | None \<Rightarrow> cached # incidents s),
                    isAnalyzing := False \<rparr>)
           | None \<Rightarrow>
               (case processIncidentWithAI world rawText (searchGrounding s) 0 (backendCalls s) of
                  (Inl e, n) \<Rightarrow> (Inl e, s \<lparr> backendCalls := n \<rparr>)
                | (Inr processed, n) \<Rightarrow>
                    (Inr processed,
                     s \<lparr> backendCalls := n,
                         cache := cacheIncident (cache s) hash processed,
                         incidents := processed # incidents s,
                         isAnalyzing := False \<rparr>))))"

text \<open>\<^verbatim>\<open>addIncident\<close>: the two state updates, the \<^verbatim>\<open>try\<close> block, and the \<^verbatim>\<open>catch\<close>.\<close>

definition addIncident ::
  "World \<Rightarrow> (string \<Rightarrow> js_error + string) \<Rightarrow> string \<Rightarrow> QPortState
     \<Rightarrow> Incident option \<times> QPortState" where
  "addIncident world generateHash rawText s =
     (case addIncident_try world generateHash rawText
             (s \<lparr> totalRequests := totalRequests s + 1, isAnalyzing := True \<rparr>) of
        (Inr incident, s') \<Rightarrow> (Some incident, s')
      | (Inl e, s') \<Rightarrow> (None, s' \<lparr> isAnalyzing := False \<rparr>))"

text \<open>
  \<^verbatim>\<open>addIncident\<close> above is one submission run from start to end. The source suspends
  it twice, while the fingerprint is computed and while the classification is awaited,
  and another submission can run in between. \<open>addIncident_lookup\<close> is the part up to
  the cache lookup (a hit ends the submission there; the counter is all that the code
  updates before the first suspension), and \<open>addIncident_resume\<close> is the rest: the
  classification that was awaited, and the code after it.
\<close>

datatype Lookup = Hit Incident | Miss string | Threw js_error

definition addIncident_lookup ::
  "(string \<Rightarrow> js_error + string) \<Rightarrow> string \<Rightarrow> QPortState \<Rightarrow> Lookup \<times> QPortState" where
  "addIncident_lookup generateHash rawText s =
     (let s1 = s \<lparr> totalRequests := totalRequests s + 1, isAnalyzing := True \<rparr> in
      case generateHash rawText of
        Inl e \<Rightarrow> (Threw e, s1 \<lparr> isAnalyzing := False \<rparr>)
      | Inr hash \<Rightarrow>
          (case getCachedIncident (cache s1) hash of
             Some cached \<Rightarrow>
               (Hit cached,
                s1 \<lparr> cacheHits := cacheHits s1 + 1,
                     incidents :=
                       (case find (\<lambda>i. incident_id i = incident_id cached) (incidents s1) of
                          Some exists \<Rightarrow>
                            cached # filter (\<lambda>i. incident_id i \<noteq> incident_id cached) (incidents s1)
                        | None \<Rightarrow> cached # incidents s1),
                     isAnalyzing := False \<rparr>)
           | None \<Rightarrow> (Miss hash, s1)))"

definition addIncident_resume ::
  "World \<Rightarrow> string \<Rightarrow> Lookup \<Rightarrow> QPortState \<Rightarrow> Incident option \<times> QPortState" where
  "addIncident_resume world rawText l s =
     (case l of
        Hit cached \<Rightarrow> (Some cached, s)
      | Threw e \<Rightarrow> (None, s)
      | Miss hash \<Rightarrow>
          (case processIncidentWithAI world rawText (searchGrounding s) 0 (backendCalls s) of
             (Inl e, n) \<Rightarrow> (None, s \<lparr> backendCalls := n, isAnalyzing := False \<rparr>)
           | (Inr processed, n) \<Rightarrow>
               (Some processed,
                s \<lparr> backendCalls := n,
                    cache := cacheIncident (cache s) hash processed,
                    incidents := processed # incidents s,
                    isAnalyzing := False \<rparr>)))"


definition updateStatus :: "string \<Rightarrow> Status \<Rightarrow> QPortState \<Rightarrow> QPortState" where
  "updateStatus ident st s =
     s \<lparr> incidents := map (\<lambda>i. if incident_id i = ident then i \<lparr> status := st \<rparr> else i)
                          (incidents s) \<rparr>"

text \<open>A session: submissions and status updates, one after the other.\<close>

datatype Action = Submit string | UpdateStatus string Status

fun run :: "World \<Rightarrow> (string \<Rightarrow> js_error + string) \<Rightarrow> Action list \<Rightarrow> QPortState \<Rightarrow> QPortState" where
  "run world generateHash [] s = s"
| "run world generateHash (Submit rawText # rest) s =
     run world generateHash rest (snd (addIncident world generateHash rawText s))"
| "run world generateHash (UpdateStatus ident st # rest) s =
     run world generateHash rest (updateStatus ident st s)"






section \<open>The specification's words\<close>

text \<open>
  The fallback incident as the specification describes it: id prefixed \<^verbatim>\<open>ERR-\<close>, status
  ERROR, severity MAJOR, priority 5, the fixed city-centre coordinates, the generic fault
  summary, no grounding sources and no latency.
\<close>

definition spec_fallback :: "Incident \<Rightarrow> bool" where
  "spec_fallback inc =
     (take 4 (incident_id inc) = ''ERR-'' \<and> status inc = ERROR \<and> severity inc = Severity_MAJOR
      \<and> priority_score inc = Finite 5
      \<and> coords inc = Some \<lparr> lat = 377749 / 10000, lng = - (1224194 / 10000) \<rparr>
      \<and> summary inc = ''System fault in AI parsing logic.''
      \<and> grounding_sources inc = None \<and> processing_latency inc = None)"







section \<open>Sample environments\<close>

text \<open>
  A backend that answers its first calls from a script and every later call with one
  fixed attempt, and sample readings, errors and payloads for concrete runs.
\<close>

definition scripted_world :: "Attempt list \<Rightarrow> Attempt \<Rightarrow> World" where
  "scripted_world script rest n rawText useGrounding =
     (if n < length script then script ! n else rest)"

definition sample_attempt :: "Outcome \<Rightarrow> Attempt" where
  "sample_attempt out =
     \<lparr> outcome = out, startTime = 1000, endTime = 12505 / 10, random36 = ''K3X9QZ'',
       now36 = ''LN2ABC12'', isoTime = ''2024-01-01T00:00:00.000Z'' \<rparr>"

definition sample_error :: "int option \<Rightarrow> js_error" where
  "sample_error st = \<lparr> err_message = ''request failed'', err_status = st \<rparr>"

definition sample_payload :: "rat option \<Rightarrow> Payload" where
  "sample_payload score =
     \<lparr> data_summary = Some ''Kitchen fire on Main St'', data_type = Some ''FIRE'',
       data_severity = Some ''CRITICAL'',
       data_priority_score = (case score of None \<Rightarrow> JUndefined | Some r \<Rightarrow> JNumber (Finite r)),
       data_coords = Some \<lparr> lat = 3778 / 100, lng = - (12241 / 100) \<rparr> \<rparr>"


text \<open>A stand-in for the fingerprint function: total and free of collisions.\<close>

definition sample_hash :: "string \<Rightarrow> js_error + string" where
  "sample_hash rawText = Inr (''sha:'' @ rawText)"

text \<open>A clock, and a fingerprint function that always throws.\<close>

definition sample_clock :: "nat \<Rightarrow> rat" where
  "sample_clock n = 1000 + 5 / 2 * of_nat n"

definition failing_hash :: "string \<Rightarrow> js_error + string" where
  "failing_hash rawText = Inl (sample_error None)"

section \<open>Properties of the statistics\<close>

text \<open>
  C6. For every incident list, \<^verbatim>\<open>total\<close>, \<^verbatim>\<open>critical\<close> and \<^verbatim>\<open>dispatched\<close> count only the
  incidents whose status is not SOLVED (\<^verbatim>\<open>critical\<close> those of CRITICAL severity among
  them, \<^verbatim>\<open>dispatched\<close> those of status DISPATCHED), and \<^verbatim>\<open>solved\<close> counts the incidents of
  status SOLVED. For four incidents of statuses ACTIVE, ACTIVE (critical), DISPATCHED,
  SOLVED the result is total 3, dispatched 1, solved 1, and critical is the number of
  CRITICAL incidents among the first three.
\<close>

theorem stats_counts:
  "total_count (stats xs) = length (filter (\<lambda>i. status i \<noteq> SOLVED) xs)
   \<and> critical (stats xs) =
       length (filter (\<lambda>i. status i \<noteq> SOLVED \<and> severity i = Severity_CRITICAL) xs)
   \<and> dispatched (stats xs) = length (filter (\<lambda>i. status i = DISPATCHED) xs)
   \<and> solved (stats xs) = length (filter (\<lambda>i. status i = SOLVED) xs)
   \<and> total_count (stats xs) + solved (stats xs) = length xs
   \<and> (status a = ACTIVE \<and> status b = ACTIVE \<and> severity b = Severity_CRITICAL
        \<and> status c = DISPATCHED \<and> status d = SOLVED
      \<longrightarrow> total_count (stats [a, b, c, d]) = 3
          \<and> dispatched (stats [a, b, c, d]) = 1
          \<and> solved (stats [a, b, c, d]) = 1
          \<and> critical (stats [a, b, c, d]) =
              length (filter (\<lambda>i. severity i = Severity_CRITICAL) [a, b, c]))"
proof -
  have disp: "(\<lambda>i. status i \<noteq> SOLVED \<and> status i = DISPATCHED) = (\<lambda>i. status i = DISPATCHED)"
    by auto
  have part: "length (filter (\<lambda>i. status i \<noteq> SOLVED) xs)
              + length (filter (\<lambda>i. status i = SOLVED) xs) = length xs"
    using sum_length_filter_compl [of "\<lambda>i. status i = SOLVED" xs] by simp
  show ?thesis
    using part by (simp add: stats_def Let_def disp)
qed

theorem stats_counts_witness:
  "(let a = \<lparr> incident_id = ''INC-A'', timestamp = ''t0'', summary = ''s'', incident_type = ''FIRE'',
               severity = Severity_MINOR, priority_score = Finite 3, coords = None, status = ACTIVE,
               processing_latency = Some 12, grounding_sources = Some [] \<rparr>;
        b = a \<lparr> incident_id := ''INC-B'', severity := Severity_CRITICAL \<rparr>;
        c = a \<lparr> incident_id := ''INC-C'', status := DISPATCHED \<rparr>;
        d = a \<lparr> incident_id := ''INC-D'', severity := Severity_CRITICAL, status := SOLVED \<rparr>
    in status a = ACTIVE \<and> status b = ACTIVE \<and> severity b = Severity_CRITICAL
       \<and> status c = DISPATCHED \<and> status d = SOLVED
       \<and> total_count (stats [a, b, c, d]) = 3
       \<and> critical (stats [a, b, c, d]) = 1
       \<and> dispatched (stats [a, b, c, d]) = 1
       \<and> solved (stats [a, b, c, d]) = 1)"
  using stats_counts
    [of "[]"
        "\<lparr> incident_id = ''INC-A'', timestamp = ''t0'', summary = ''s'', incident_type = ''FIRE'',
           severity = Severity_MINOR, priority_score = Finite 3, coords = None, status = ACTIVE,
           processing_latency = Some 12, grounding_sources = Some [] \<rparr>"
        "\<lparr> incident_id = ''INC-B'', timestamp = ''t0'', summary = ''s'', incident_type = ''FIRE'',
           severity = Severity_CRITICAL, priority_score = Finite 3, coords = None, status = ACTIVE,
           processing_latency = Some 12, grounding_sources = Some [] \<rparr>"
        "\<lparr> incident_id = ''INC-C'', timestamp = ''t0'', summary = ''s'', incident_type = ''FIRE'',
           severity = Severity_MINOR, priority_score = Finite 3, coords = None, status = DISPATCHED,
           processing_latency = Some 12, grounding_sources = Some [] \<rparr>"
        "\<lparr> incident_id = ''INC-D'', timestamp = ''t0'', summary = ''s'', incident_type = ''FIRE'',
           severity = Severity_CRITICAL, priority_score = Finite 3, coords = None, status = SOLVED,
           processing_latency = Some 12, grounding_sources = Some [] \<rparr>"]
  by (simp add: Let_def Severity_CRITICAL_def Severity_MINOR_def)

section \<open>Properties of the classification client\<close>

text \<open>The four ways through one invocation.\<close>



lemma processIncidentWithAI_invalid:
  "input_invalid rawText \<Longrightarrow>
   processIncidentWithAI world rawText g retryCount calls =
     (Inl \<lparr> err_message = ''Input invalid.'', err_status = None \<rparr>, calls)"
  by (simp add: processIncidentWithAI.simps)

lemma processIncidentWithAI_parsed:
  "\<not> input_invalid rawText \<Longrightarrow> outcome (world calls rawText g) = Parsed d chunks \<Longrightarrow>
   processIncidentWithAI world rawText g retryCount calls =
     (Inr (success_incident (world calls rawText g) d chunks), Suc calls)"
  by (simp add: processIncidentWithAI.simps [of world rawText g retryCount calls] Let_def)

lemma processIncidentWithAI_retry:
  "\<not> input_invalid rawText \<Longrightarrow> outcome (world calls rawText g) = Fails err \<Longrightarrow>
   retryCount < 3 \<Longrightarrow> retryable err \<Longrightarrow>
   processIncidentWithAI world rawText g retryCount calls =
     processIncidentWithAI world rawText g (retryCount + 1) (Suc calls)"
  by (simp add: processIncidentWithAI.simps [of world rawText g retryCount calls] Let_def)

lemma processIncidentWithAI_give_up:
  "\<not> input_invalid rawText \<Longrightarrow> outcome (world calls rawText g) = Fails err \<Longrightarrow>
   \<not> (retryCount < 3 \<and> retryable err) \<Longrightarrow>
   processIncidentWithAI world rawText g retryCount calls =
     (Inr (fallback_incident (world calls rawText g)), Suc calls)"
  by (auto simp add: processIncidentWithAI.simps [of world rawText g retryCount calls] Let_def)

lemma processIncidentWithAI_trace:
  "\<not> input_invalid rawText \<Longrightarrow>
   \<exists>inc n. processIncidentWithAI world rawText g retryCount calls = (Inr inc, n)
     \<and> calls < n \<and> n \<le> Suc calls + (3 - retryCount)
     \<and> (\<forall>k. calls \<le> k \<and> k < n - 1 \<longrightarrow>
            (\<exists>e. outcome (world k rawText g) = Fails e \<and> retryable e))
     \<and> (case outcome (world (n - 1) rawText g) of
           Parsed d chunks \<Rightarrow> inc = success_incident (world (n - 1) rawText g) d chunks
         | Fails err \<Rightarrow> inc = fallback_incident (world (n - 1) rawText g)
             \<and> (\<not> retryable err \<or> 3 \<le> retryCount + (n - 1 - calls)))"
proof (induction world rawText g retryCount calls rule: processIncidentWithAI.induct)
  case (1 world rawText g retryCount calls)
  let ?a = "world calls rawText g"
  show ?case
  proof (cases "outcome ?a")
    case (Parsed d chunks)
    then show ?thesis
      using "1.prems" by (auto simp add: processIncidentWithAI_parsed)
  next
    case (Fails err)
    show ?thesis
    proof (cases "retryCount < 3 \<and> retryable err")
      case False
      then show ?thesis
        using "1.prems" Fails by (auto simp add: processIncidentWithAI_give_up)
    next
      case True
      from "1.IH" [OF "1.prems" refl Fails True "1.prems"]
      obtain inc n where
        r: "processIncidentWithAI world rawText g (retryCount + 1) (Suc calls) = (Inr inc, n)"
        and lo: "Suc calls < n" and hi: "n \<le> Suc (Suc calls) + (3 - (retryCount + 1))"
        and earlier: "\<forall>k. Suc calls \<le> k \<and> k < n - 1 \<longrightarrow>
            (\<exists>e. outcome (world k rawText g) = Fails e \<and> retryable e)"
        and last: "(case outcome (world (n - 1) rawText g) of
           Parsed d chunks \<Rightarrow> inc = success_incident (world (n - 1) rawText g) d chunks
         | Fails err \<Rightarrow> inc = fallback_incident (world (n - 1) rawText g)
             \<and> (\<not> retryable err \<or> 3 \<le> retryCount + 1 + (n - 1 - Suc calls)))"
        by blast
      have eq: "processIncidentWithAI world rawText g retryCount calls = (Inr inc, n)"
        using processIncidentWithAI_retry [of rawText world calls g err retryCount] "1.prems" Fails True r
        by simp
      have e2: "\<forall>k. calls \<le> k \<and> k < n - 1 \<longrightarrow>
            (\<exists>e. outcome (world k rawText g) = Fails e \<and> retryable e)"
      proof (intro allI impI)
        fix k assume k: "calls \<le> k \<and> k < n - 1"
        show "\<exists>e. outcome (world k rawText g) = Fails e \<and> retryable e"
        proof (cases "k = calls")
          case True
          then show ?thesis using Fails \<open>retryCount < 3 \<and> retryable err\<close> by simp
        next
          case False
          then show ?thesis using k earlier by simp
        qed
      qed
      have idx: "retryCount + 1 + (n - 1 - Suc calls) = retryCount + (n - 1 - calls)"
        using lo by simp
      have l2: "(case outcome (world (n - 1) rawText g) of
           Parsed d chunks \<Rightarrow> inc = success_incident (world (n - 1) rawText g) d chunks
         | Fails err \<Rightarrow> inc = fallback_incident (world (n - 1) rawText g)
             \<and> (\<not> retryable err \<or> 3 \<le> retryCount + (n - 1 - calls)))"
        using last lo by (auto split: Outcome.splits)
      have b: "calls < n \<and> n \<le> Suc calls + (3 - retryCount)"
        using lo hi True by linarith
      show ?thesis using eq e2 l2 b by blast
    qed
  qed
qed

lemma fallback_is_spec_fallback: "spec_fallback (fallback_incident a)"
  by (simp add: spec_fallback_def fallback_incident_def)

lemma valid_sample: "\<not> input_invalid ''Fire on Main St''"
  by (simp add: input_invalid_def trim_def js_whitespace_def)






lemma processIncidentWithAI_exhausts:
  assumes valid: "\<not> input_invalid rawText"
    and fails: "\<forall>k<4. \<exists>e. outcome (world (calls + k) rawText g) = Fails e \<and> retryable e"
  shows "processIncidentWithAI world rawText g 0 calls =
           (Inr (fallback_incident (world (calls + 3) rawText g)), calls + 4)"
proof -
  obtain e0 where e0: "outcome (world calls rawText g) = Fails e0" "retryable e0"
    using fails [rule_format, of 0] by auto
  obtain e1 where e1: "outcome (world (Suc calls) rawText g) = Fails e1" "retryable e1"
    using fails [rule_format, of 1] by auto
  obtain e2 where e2: "outcome (world (Suc (Suc calls)) rawText g) = Fails e2" "retryable e2"
    using fails [rule_format, of 2] by auto
  obtain e3 where e3: "outcome (world (Suc (Suc (Suc calls))) rawText g) = Fails e3"
    using fails [rule_format, of 3] by (auto simp add: numeral_3_eq_3)
  have "processIncidentWithAI world rawText g 0 calls =
        processIncidentWithAI world rawText g 1 (Suc calls)"
    using processIncidentWithAI_retry [of rawText world calls g e0 0] valid e0 by simp
  also have "\<dots> = processIncidentWithAI world rawText g 2 (Suc (Suc calls))"
    using processIncidentWithAI_retry [of rawText world "Suc calls" g e1 1] valid e1 by (simp add: eval_nat_numeral)
  also have "\<dots> = processIncidentWithAI world rawText g 3 (Suc (Suc (Suc calls)))"
    using processIncidentWithAI_retry [of rawText world "Suc (Suc calls)" g e2 2] valid e2 by (simp add: eval_nat_numeral)
  also have "\<dots> = (Inr (fallback_incident (world (Suc (Suc (Suc calls))) rawText g)),
                    Suc (Suc (Suc (Suc calls))))"
    using processIncidentWithAI_give_up [of rawText world "Suc (Suc (Suc calls))" g e3 3] valid e3
    by (simp add: eval_nat_numeral)
  finally show ?thesis by (simp add: numeral_3_eq_3 eval_nat_numeral)
qed

text \<open>
  C4. When an attempt fails, the client tries again exactly when fewer than three retries
  have been made and the error is rate-limited (status 429) or carries no status
  (\<^verbatim>\<open>!err.status\<close>: the property is absent, or it is the falsy number 0); otherwise, so on
  any other status, it makes no further call and returns the fallback incident at once.
  An invocation makes at least one and at most four backend calls (attempts 0 to 3),
  every attempt before the last one failed with a retryable error, and four retryable
  failures in a row end in the fallback after exactly four calls.
\<close>

theorem retry_policy:
  assumes "\<not> input_invalid rawText"
  shows "(\<forall>err. outcome (world calls rawText g) = Fails err \<longrightarrow>
           (if retryCount < 3
               \<and> (err_status err = Some 429 \<or> err_status err = None \<or> err_status err = Some 0)
            then processIncidentWithAI world rawText g retryCount calls =
                   processIncidentWithAI world rawText g (retryCount + 1) (Suc calls)
            else processIncidentWithAI world rawText g retryCount calls =
                   (Inr (fallback_incident (world calls rawText g)), Suc calls)
                 \<and> spec_fallback (fallback_incident (world calls rawText g))))
     \<and> calls < snd (processIncidentWithAI world rawText g 0 calls)
     \<and> snd (processIncidentWithAI world rawText g 0 calls) \<le> calls + 4
     \<and> (\<forall>k. calls \<le> k \<and> k + 1 < snd (processIncidentWithAI world rawText g 0 calls) \<longrightarrow>
           (\<exists>e. outcome (world k rawText g) = Fails e
                \<and> (err_status e = Some 429 \<or> err_status e = None \<or> err_status e = Some 0)))
     \<and> ((\<forall>k<4. \<exists>e. outcome (world (calls + k) rawText g) = Fails e
                \<and> (err_status e = Some 429 \<or> err_status e = None \<or> err_status e = Some 0))
         \<longrightarrow> processIncidentWithAI world rawText g 0 calls =
               (Inr (fallback_incident (world (calls + 3) rawText g)), calls + 4))"
proof -
  have step: "\<forall>err. outcome (world calls rawText g) = Fails err \<longrightarrow>
           (if retryCount < 3
               \<and> (err_status err = Some 429 \<or> err_status err = None \<or> err_status err = Some 0)
            then processIncidentWithAI world rawText g retryCount calls =
                   processIncidentWithAI world rawText g (retryCount + 1) (Suc calls)
            else processIncidentWithAI world rawText g retryCount calls =
                   (Inr (fallback_incident (world calls rawText g)), Suc calls)
                 \<and> spec_fallback (fallback_incident (world calls rawText g)))"
  proof (intro allI impI)
    fix err assume f: "outcome (world calls rawText g) = Fails err"
    show "if retryCount < 3
               \<and> (err_status err = Some 429 \<or> err_status err = None \<or> err_status err = Some 0)
            then processIncidentWithAI world rawText g retryCount calls =
                   processIncidentWithAI world rawText g (retryCount + 1) (Suc calls)
            else processIncidentWithAI world rawText g retryCount calls =
                   (Inr (fallback_incident (world calls rawText g)), Suc calls)
                 \<and> spec_fallback (fallback_incident (world calls rawText g))"
    proof (cases "retryCount < 3 \<and> retryable err")
      case True
      then show ?thesis
        using processIncidentWithAI_retry [of rawText world calls g err retryCount] assms f
        by (simp add: retryable_def)
    next
      case False
      then show ?thesis
        using processIncidentWithAI_give_up [of rawText world calls g err retryCount] assms f
          fallback_is_spec_fallback
        by (auto simp add: retryable_def)
    qed
  qed
  from processIncidentWithAI_trace [OF assms, of world g 0 calls]
  obtain inc n where
    r: "processIncidentWithAI world rawText g 0 calls = (Inr inc, n)"
    and lo: "calls < n" and hi: "n \<le> Suc calls + (3 - 0)"
    and earlier: "\<forall>k. calls \<le> k \<and> k < n - 1 \<longrightarrow>
            (\<exists>e. outcome (world k rawText g) = Fails e \<and> retryable e)"
    by blast
  have bounds: "calls < snd (processIncidentWithAI world rawText g 0 calls)
     \<and> snd (processIncidentWithAI world rawText g 0 calls) \<le> calls + 4"
    using r lo hi by simp
  have before: "\<forall>k. calls \<le> k \<and> k + 1 < snd (processIncidentWithAI world rawText g 0 calls) \<longrightarrow>
           (\<exists>e. outcome (world k rawText g) = Fails e
                \<and> (err_status e = Some 429 \<or> err_status e = None \<or> err_status e = Some 0))"
  proof (intro allI impI)
    fix k assume "calls \<le> k \<and> k + 1 < snd (processIncidentWithAI world rawText g 0 calls)"
    then have "calls \<le> k \<and> k < n - 1" using r by auto
    with earlier show "\<exists>e. outcome (world k rawText g) = Fails e
                \<and> (err_status e = Some 429 \<or> err_status e = None \<or> err_status e = Some 0)"
      by (simp add: retryable_def)
  qed
  have tight: "(\<forall>k<4. \<exists>e. outcome (world (calls + k) rawText g) = Fails e
                \<and> (err_status e = Some 429 \<or> err_status e = None \<or> err_status e = Some 0))
         \<longrightarrow> processIncidentWithAI world rawText g 0 calls =
               (Inr (fallback_incident (world (calls + 3) rawText g)), calls + 4)"
    using processIncidentWithAI_exhausts [OF assms, of world calls g]
    by (simp add: retryable_def)
  show ?thesis using step bounds before tight by blast
qed

theorem retry_policy_witness:
  "\<not> input_invalid ''Fire on Main St''
   \<and> outcome (scripted_world [sample_attempt (Fails (sample_error (Some 429)))]
                 (sample_attempt (Fails (sample_error (Some 500)))) 0 ''Fire on Main St'' True)
       = Fails (sample_error (Some 429))
   \<and> processIncidentWithAI
        (scripted_world [sample_attempt (Fails (sample_error (Some 429)))]
           (sample_attempt (Fails (sample_error (Some 500))))) ''Fire on Main St'' True 0 0
     = processIncidentWithAI
        (scripted_world [sample_attempt (Fails (sample_error (Some 429)))]
           (sample_attempt (Fails (sample_error (Some 500))))) ''Fire on Main St'' True 1 1
   \<and> snd (processIncidentWithAI
        (scripted_world [sample_attempt (Fails (sample_error (Some 429)))]
           (sample_attempt (Fails (sample_error (Some 500))))) ''Fire on Main St'' True 0 0) \<le> 4"
  using retry_policy
    [OF valid_sample,
     of "scripted_world [sample_attempt (Fails (sample_error (Some 429)))]
           (sample_attempt (Fails (sample_error (Some 500))))" 0 True 0]
    valid_sample
  by (auto simp add: scripted_world_def sample_attempt_def sample_error_def)


section \<open>Properties of the priority score\<close>

lemma clamp_finite:
  "Math_min (Finite 10) (Math_max (Finite 1) (Finite x)) =
     Finite (if x < 1 then 1 else if 10 < x then 10 else x)"
  by simp

lemma clamp_range:
  "Math_min (Finite 10) (Math_max (Finite 1) n) = NaN \<and> n = NaN
   \<or> (\<exists>r. Math_min (Finite 10) (Math_max (Finite 1) n) = Finite r \<and> 1 \<le> r \<and> r \<le> 10)"
  by (cases n) auto

lemma falsy_values:
  "\<not> ToBoolean v \<longleftrightarrow>
     v \<in> set [JUndefined, JNull, JBoolean False, JNumber (Finite 0), JNumber NaN, JString []]"
proof (cases v)
  case (JNumber n)
  then show ?thesis by (cases n) auto
qed auto

lemma processIncidentWithAI_priority:
  assumes "\<not> input_invalid rawText"
    and "outcome (world calls rawText g) = Parsed d chunks"
  shows "\<exists>inc. processIncidentWithAI world rawText g retryCount calls = (Inr inc, Suc calls)
     \<and> status inc = ACTIVE
     \<and> priority_score inc =
         Math_min (Finite 10)
           (Math_max (Finite 1)
              (ToNumber (if ToBoolean (data_priority_score d)
                         then data_priority_score d else JNumber (Finite 5))))"
  using processIncidentWithAI_parsed [of rawText world calls g d chunks retryCount] assms
  by (simp add: success_incident_def js_or_def)

lemma not_a_numeral: "StringToNumber ''high'' = NaN"
  by (simp add: StringToNumber_def trim_def js_whitespace_def decimal_literal_def
      decimal_digit_def Let_def)

text \<open>
  C3, as the code has it. For every classification that was answered, the priority of
  the incident is the clamp of the number that the raw score converts to, after a falsy
  score has been replaced by 5: it lies within 1 to 10 or it is \<^verbatim>\<open>NaN\<close>, and it is
  \<^verbatim>\<open>NaN\<close> only for a truthy score that is not a number and does not convert to one.
  When the raw score is a number, the priority lies within 1 to 10: a number other than
  0 is clamped, so below 1 it becomes 1, above 10 it becomes 10, and within the range it
  is kept; 25 gives 10 and -3 gives 1. The raw score 0 is not clamped to 1: it is taken
  for a missing value and replaced by the default 5, as is a missing score (see C10).
  The score \<^verbatim>\<open>"high"\<close> gives \<^verbatim>\<open>NaN\<close> on an ACTIVE incident.
\<close>

theorem priority_score_clamped:
  assumes "\<not> input_invalid rawText"
    and "outcome (world calls rawText g) = Parsed d chunks"
  shows "\<exists>inc. processIncidentWithAI world rawText g retryCount calls = (Inr inc, Suc calls)
     \<and> status inc = ACTIVE
     \<and> (priority_score inc = NaN
         \<or> (\<exists>r. priority_score inc = Finite r \<and> 1 \<le> r \<and> r \<le> 10))
     \<and> (priority_score inc = NaN \<longleftrightarrow>
           ToBoolean (data_priority_score d) \<and> ToNumber (data_priority_score d) = NaN)
     \<and> (\<forall>x. data_priority_score d = JNumber x \<longrightarrow>
           (\<exists>r. priority_score inc = Finite r \<and> 1 \<le> r \<and> r \<le> 10))
     \<and> (\<forall>raw. data_priority_score d = JNumber (Finite raw) \<and> raw \<noteq> 0 \<longrightarrow>
           priority_score inc = Finite (if raw < 1 then 1 else if 10 < raw then 10 else raw))
     \<and> (data_priority_score d = JNumber PlusInfinity \<longrightarrow> priority_score inc = Finite 10)
     \<and> (data_priority_score d = JNumber MinusInfinity \<longrightarrow> priority_score inc = Finite 1)
     \<and> (data_priority_score d = JNumber (Finite 25) \<longrightarrow> priority_score inc = Finite 10)
     \<and> (data_priority_score d = JNumber (Finite (- 3)) \<longrightarrow> priority_score inc = Finite 1)
     \<and> (data_priority_score d = JNumber (Finite 0) \<or> data_priority_score d = JUndefined
          \<longrightarrow> priority_score inc = Finite 5)
     \<and> (data_priority_score d = JString ''high'' \<longrightarrow> priority_score inc = NaN)"
proof -
  let ?v = "data_priority_score d"
  let ?x = "ToNumber (if ToBoolean ?v then ?v else JNumber (Finite 5))"
  from processIncidentWithAI_priority [of rawText world calls g d chunks retryCount] assms
  obtain inc where
    r: "processIncidentWithAI world rawText g retryCount calls = (Inr inc, Suc calls)"
    and st: "status inc = ACTIVE"
    and p: "priority_score inc = Math_min (Finite 10) (Math_max (Finite 1) ?x)"
    by blast
  have range: "priority_score inc = NaN
         \<or> (\<exists>r. priority_score inc = Finite r \<and> 1 \<le> r \<and> r \<le> 10)"
    using clamp_range [of ?x] p by auto
  have nan: "priority_score inc = NaN \<longleftrightarrow> ToBoolean ?v \<and> ToNumber ?v = NaN"
    using clamp_range [of ?x] p by (cases "ToBoolean ?v") auto
  have num: "\<forall>x. ?v = JNumber x \<longrightarrow>
           (\<exists>r. priority_score inc = Finite r \<and> 1 \<le> r \<and> r \<le> 10)"
  proof (intro allI impI)
    fix x assume v: "?v = JNumber x"
    have "\<not> (ToBoolean ?v \<and> ToNumber ?v = NaN)" by (cases x) (simp_all add: v)
    with nan range show "\<exists>r. priority_score inc = Finite r \<and> 1 \<le> r \<and> r \<le> 10" by blast
  qed
  have clamp: "\<forall>raw. ?v = JNumber (Finite raw) \<and> raw \<noteq> 0 \<longrightarrow>
           priority_score inc = Finite (if raw < 1 then 1 else if 10 < raw then 10 else raw)"
  proof (intro allI impI)
    fix raw assume "?v = JNumber (Finite raw) \<and> raw \<noteq> 0"
    then have "?x = Finite raw" by simp
    with p show "priority_score inc = Finite (if raw < 1 then 1 else if 10 < raw then 10 else raw)"
      by (simp only: clamp_finite)
  qed
  have pinf: "?v = JNumber PlusInfinity \<longrightarrow> priority_score inc = Finite 10"
    using p by simp
  have minf: "?v = JNumber MinusInfinity \<longrightarrow> priority_score inc = Finite 1"
    using p by simp
  have e1: "?v = JNumber (Finite 25) \<longrightarrow> priority_score inc = Finite 10"
    using clamp [rule_format, of 25] by simp
  have e2: "?v = JNumber (Finite (- 3)) \<longrightarrow> priority_score inc = Finite 1"
    using clamp [rule_format, of "- 3"] by simp
  have dflt: "?v = JNumber (Finite 0) \<or> ?v = JUndefined \<longrightarrow> priority_score inc = Finite 5"
    using p by auto
  have high: "?v = JString ''high'' \<longrightarrow> priority_score inc = NaN"
    using p by (simp add: not_a_numeral)
  show ?thesis
  proof (intro exI conjI)
    show "processIncidentWithAI world rawText g retryCount calls = (Inr inc, Suc calls)"
      by (rule r)
    show "status inc = ACTIVE" by (rule st)
  qed (rule range, rule nan, rule num, rule clamp, rule pinf, rule minf, rule e1, rule e2,
       rule dflt, rule high)
qed

theorem priority_score_clamped_witness:
  "\<not> input_invalid ''Fire on Main St''
   \<and> outcome (scripted_world [] (sample_attempt (Parsed (sample_payload (Some 25)) None))
                0 ''Fire on Main St'' True)
       = Parsed (sample_payload (Some 25)) None
   \<and> data_priority_score (sample_payload (Some 25)) = JNumber (Finite 25)
   \<and> (\<exists>inc. processIncidentWithAI
               (scripted_world [] (sample_attempt (Parsed (sample_payload (Some 25)) None)))
               ''Fire on Main St'' True 0 0 = (Inr inc, 1)
            \<and> priority_score inc = Finite 10)"
  using priority_score_clamped
    [of "''Fire on Main St''"
        "scripted_world [] (sample_attempt (Parsed (sample_payload (Some 25)) None))"
        0 True "sample_payload (Some 25)" None 0]
    valid_sample
  by (auto simp add: scripted_world_def sample_attempt_def sample_payload_def)

text \<open>
  C3, as the claim states it, fails at the raw score 0: it lies outside 1 to 10, clamping
  it would give 1, and the incident carries 5.
\<close>

theorem priority_score_zero_counterexample:
  "\<not> input_invalid ''Fire on Main St''
   \<and> data_priority_score (sample_payload (Some 0)) = JNumber (Finite 0)
   \<and> \<not> (1 \<le> (0 :: rat) \<and> (0 :: rat) \<le> 10)
   \<and> fst (processIncidentWithAI
             (scripted_world [] (sample_attempt (Parsed (sample_payload (Some 0)) None)))
             ''Fire on Main St'' True 0 0)
       = Inr (success_incident (sample_attempt (Parsed (sample_payload (Some 0)) None))
                (sample_payload (Some 0)) None)
   \<and> priority_score (success_incident (sample_attempt (Parsed (sample_payload (Some 0)) None))
                (sample_payload (Some 0)) None) = Finite 5
   \<and> priority_score (success_incident (sample_attempt (Parsed (sample_payload (Some 0)) None))
                (sample_payload (Some 0)) None) \<noteq> Finite 1"
  using valid_sample
  by (simp add: processIncidentWithAI.simps [of _ _ _ 0 0] scripted_world_def sample_attempt_def
      sample_payload_def success_incident_def js_or_def)

text \<open>
  C10. When the payload of an answered classification carries the raw score 0, or no
  score (the property is missing), or another falsy value (\<^verbatim>\<open>null\<close>, \<^verbatim>\<open>false\<close>, the empty
  string, \<^verbatim>\<open>NaN\<close>), the priority of the incident is the default 5 and not the lower bound
  1: in every case the priority is the clamp of the number of the value obtained after
  the default has replaced a falsy score.
\<close>

theorem priority_score_default:
  assumes "\<not> input_invalid rawText"
    and "outcome (world calls rawText g) = Parsed d chunks"
  shows "\<exists>inc. processIncidentWithAI world rawText g retryCount calls = (Inr inc, Suc calls)
     \<and> priority_score inc =
         Math_min (Finite 10)
           (Math_max (Finite 1)
              (ToNumber (if ToBoolean (data_priority_score d)
                         then data_priority_score d else JNumber (Finite 5))))
     \<and> (data_priority_score d = JNumber (Finite 0) \<or> data_priority_score d = JUndefined
          \<longrightarrow> priority_score inc = Finite 5 \<and> priority_score inc \<noteq> Finite 1)
     \<and> (data_priority_score d
            \<in> set [JUndefined, JNull, JBoolean False, JNumber (Finite 0), JNumber NaN, JString []]
          \<longrightarrow> priority_score inc = Finite 5 \<and> priority_score inc \<noteq> Finite 1)"
proof -
  let ?v = "data_priority_score d"
  from processIncidentWithAI_priority [of rawText world calls g d chunks retryCount] assms
  obtain inc where
    r: "processIncidentWithAI world rawText g retryCount calls = (Inr inc, Suc calls)"
    and p: "priority_score inc =
         Math_min (Finite 10)
           (Math_max (Finite 1) (ToNumber (if ToBoolean ?v then ?v else JNumber (Finite 5))))"
    by blast
  have falsy: "\<not> ToBoolean ?v \<longrightarrow> priority_score inc = Finite 5 \<and> priority_score inc \<noteq> Finite 1"
    using p by simp
  have f1: "?v = JNumber (Finite 0) \<or> ?v = JUndefined
          \<longrightarrow> priority_score inc = Finite 5 \<and> priority_score inc \<noteq> Finite 1"
    using falsy by auto
  have f2: "?v \<in> set [JUndefined, JNull, JBoolean False, JNumber (Finite 0), JNumber NaN, JString []]
          \<longrightarrow> priority_score inc = Finite 5 \<and> priority_score inc \<noteq> Finite 1"
    using falsy falsy_values [of ?v] by blast
  show ?thesis
  proof (intro exI conjI)
    show "processIncidentWithAI world rawText g retryCount calls = (Inr inc, Suc calls)"
      by (rule r)
  qed (rule p, rule f1, rule f2)
qed

theorem priority_score_default_witness:
  "\<not> input_invalid ''Fire on Main St''
   \<and> outcome (scripted_world [] (sample_attempt (Parsed (sample_payload (Some 0)) None))
                0 ''Fire on Main St'' True)
       = Parsed (sample_payload (Some 0)) None
   \<and> data_priority_score (sample_payload (Some 0)) = JNumber (Finite 0)
   \<and> (\<exists>inc. processIncidentWithAI
               (scripted_world [] (sample_attempt (Parsed (sample_payload (Some 0)) None)))
               ''Fire on Main St'' True 0 0 = (Inr inc, 1)
            \<and> priority_score inc = Finite 5)"
  using priority_score_default
    [of "''Fire on Main St''"
        "scripted_world [] (sample_attempt (Parsed (sample_payload (Some 0)) None))"
        0 True "sample_payload (Some 0)" None 0]
    valid_sample
  by (auto simp add: scripted_world_def sample_attempt_def sample_payload_def)

section \<open>Properties of submission\<close>

lemma move_to_front:
  "(case find (\<lambda>i. incident_id i = k) xs of
      Some found \<Rightarrow> c # filter (\<lambda>i. incident_id i \<noteq> k) xs
    | None \<Rightarrow> c # xs) = c # filter (\<lambda>i. incident_id i \<noteq> k) xs"
proof (cases "find (\<lambda>i. incident_id i = k) xs")
  case None
  then have "\<forall>x\<in>set xs. incident_id x \<noteq> k" by (simp add: find_None_iff)
  then have "filter (\<lambda>i. incident_id i \<noteq> k) xs = xs" by (simp add: filter_id_conv)
  with None show ?thesis by simp
next
  case (Some a)
  then show ?thesis by simp
qed

lemma addIncident_hash_throws:
  "generateHash rawText = Inl e \<Longrightarrow>
   addIncident world generateHash rawText s =
     (None, s \<lparr> totalRequests := totalRequests s + 1, isAnalyzing := False \<rparr>)"
  by (simp add: addIncident_def addIncident_try_def)

lemma addIncident_try_hit:
  "generateHash rawText = Inr h \<Longrightarrow> cache s h = Some cached \<Longrightarrow>
   addIncident_try world generateHash rawText s =
     (Inr cached,
      s \<lparr> cacheHits := cacheHits s + 1,
          incidents := cached # filter (\<lambda>i. incident_id i \<noteq> incident_id cached) (incidents s),
          isAnalyzing := False \<rparr>)"
  by (simp add: addIncident_try_def getCachedIncident_def move_to_front)

lemma addIncident_hit:
  "generateHash rawText = Inr h \<Longrightarrow> cache s h = Some cached \<Longrightarrow>
   addIncident world generateHash rawText s =
     (Some cached,
      s \<lparr> totalRequests := totalRequests s + 1, isAnalyzing := False,
          cacheHits := cacheHits s + 1,
          incidents := cached # filter (\<lambda>i. incident_id i \<noteq> incident_id cached) (incidents s) \<rparr>)"
  by (simp add: addIncident_def addIncident_try_hit)

lemma addIncident_rejects:
  "generateHash rawText = Inr h \<Longrightarrow> cache s h = None \<Longrightarrow> input_invalid rawText \<Longrightarrow>
   addIncident world generateHash rawText s =
     (None, s \<lparr> totalRequests := totalRequests s + 1, isAnalyzing := False \<rparr>)"
  by (simp add: addIncident_def addIncident_try_def getCachedIncident_def
      processIncidentWithAI_invalid)

lemma addIncident_miss:
  assumes "generateHash rawText = Inr h" and "cache s h = None" and "\<not> input_invalid rawText"
  shows "\<exists>processed n.
     processIncidentWithAI world rawText (searchGrounding s) 0 (backendCalls s) = (Inr processed, n)
     \<and> addIncident world generateHash rawText s =
         (Some processed,
          s \<lparr> totalRequests := totalRequests s + 1, isAnalyzing := False,
              backendCalls := n, cache := (cache s)(h \<mapsto> processed),
              incidents := processed # incidents s \<rparr>)"
proof -
  from processIncidentWithAI_trace [OF assms(3), of world "searchGrounding s" 0 "backendCalls s"]
  obtain processed n where
    r: "processIncidentWithAI world rawText (searchGrounding s) 0 (backendCalls s) = (Inr processed, n)"
    by blast
  have "addIncident world generateHash rawText s =
         (Some processed,
          s \<lparr> totalRequests := totalRequests s + 1, isAnalyzing := False,
              backendCalls := n, cache := (cache s)(h \<mapsto> processed),
              incidents := processed # incidents s \<rparr>)"
    using assms(1,2) r
    by (simp add: addIncident_def addIncident_try_def getCachedIncident_def cacheIncident_def)
  with r show ?thesis by blast
qed


lemma addIncident_lookup_hit:
  "generateHash rawText = Inr h \<Longrightarrow> cache s h = Some cached \<Longrightarrow>
   addIncident_lookup generateHash rawText s =
     (Hit cached,
      s \<lparr> totalRequests := totalRequests s + 1, isAnalyzing := False,
          cacheHits := cacheHits s + 1,
          incidents := cached # filter (\<lambda>i. incident_id i \<noteq> incident_id cached) (incidents s) \<rparr>)"
proof -
  assume h: "generateHash rawText = Inr h" and c: "cache s h = Some cached"
  have "find (\<lambda>i. incident_id i = incident_id cached) (incidents s) = None \<Longrightarrow>
        filter (\<lambda>i. incident_id i \<noteq> incident_id cached) (incidents s) = incidents s"
    by (simp add: find_None_iff filter_id_conv)
  with h c show ?thesis
    by (simp add: addIncident_lookup_def getCachedIncident_def Let_def split: option.splits)
qed

lemma addIncident_lookup_miss:
  "generateHash rawText = Inr h \<Longrightarrow> cache s h = None \<Longrightarrow>
   addIncident_lookup generateHash rawText s =
     (Miss h, s \<lparr> totalRequests := totalRequests s + 1, isAnalyzing := True \<rparr>)"
  by (simp add: addIncident_lookup_def getCachedIncident_def Let_def)

text \<open>One submission run from start to end is its two parts, one after the other.\<close>

lemma addIncident_phases:
  "addIncident world generateHash rawText s =
     addIncident_resume world rawText (fst (addIncident_lookup generateHash rawText s))
       (snd (addIncident_lookup generateHash rawText s))"
proof (cases "generateHash rawText")
  case (Inl e)
  then show ?thesis
    by (simp add: addIncident_hash_throws addIncident_lookup_def addIncident_resume_def Let_def)
next
  case (Inr h)
  show ?thesis
  proof (cases "cache s h")
    case (Some cached)
    with Inr show ?thesis
      by (simp add: addIncident_hit addIncident_lookup_hit addIncident_resume_def)
  next
    case None
    with Inr show ?thesis
      by (simp add: addIncident_lookup_miss addIncident_resume_def addIncident_def
          addIncident_try_def getCachedIncident_def split: prod.splits sum.splits)
  qed
qed






lemma addIncident_try_no_call_when_invalid:
  "input_invalid rawText \<Longrightarrow>
   backendCalls (snd (addIncident_try world generateHash rawText s)) = backendCalls s
   \<and> cache (snd (addIncident_try world generateHash rawText s)) = cache s"
  by (simp add: addIncident_try_def getCachedIncident_def processIncidentWithAI_invalid
      split: sum.splits option.splits)

lemma addIncident_no_call_when_invalid:
  "input_invalid rawText \<Longrightarrow>
   backendCalls (snd (addIncident world generateHash rawText s)) = backendCalls s
   \<and> cache (snd (addIncident world generateHash rawText s)) = cache s"
  using addIncident_try_no_call_when_invalid
    [of rawText world generateHash "s \<lparr> totalRequests := totalRequests s + 1, isAnalyzing := True \<rparr>"]
  by (auto simp add: addIncident_def split: prod.splits sum.splits)

lemma addIncident_rejects_uncached:
  assumes "input_invalid rawText" and "\<forall>h. generateHash rawText = Inr h \<longrightarrow> cache s h = None"
  shows "addIncident world generateHash rawText s =
     (None, s \<lparr> totalRequests := totalRequests s + 1, isAnalyzing := False \<rparr>)"
proof (cases "generateHash rawText")
  case (Inl e)
  then show ?thesis by (rule addIncident_hash_throws)
next
  case (Inr h)
  with assms show ?thesis by (simp add: addIncident_rejects)
qed

lemma addIncident_cache_keys:
  assumes "cache (snd (addIncident world generateHash rawText s)) h \<noteq> None"
  shows "cache s h \<noteq> None \<or> (\<not> input_invalid rawText \<and> generateHash rawText = Inr h)"
proof (cases "generateHash rawText")
  case (Inl e)
  with assms show ?thesis by (simp add: addIncident_hash_throws)
next
  case (Inr k)
  show ?thesis
  proof (cases "cache s k")
    case (Some cached)
    with assms Inr show ?thesis by (simp add: addIncident_hit)
  next
    case None
    show ?thesis
    proof (cases "input_invalid rawText")
      case True
      with assms Inr None show ?thesis by (simp add: addIncident_rejects)
    next
      case False
      from addIncident_miss [of generateHash rawText k s world] Inr None False assms
      show ?thesis by (auto split: if_splits)
    qed
  qed
qed

lemma run_cache_keys:
  "cache (run world generateHash acts s) h \<noteq> None \<Longrightarrow>
   cache s h \<noteq> None
   \<or> (\<exists>t. Submit t \<in> set acts \<and> \<not> input_invalid t \<and> generateHash t = Inr h)"
proof (induction acts arbitrary: s)
  case Nil
  then show ?case by simp
next
  case (Cons a acts)
  show ?case
  proof (cases a)
    case (Submit t)
    with Cons.prems have
      "cache (run world generateHash acts (snd (addIncident world generateHash t s))) h \<noteq> None"
      by simp
    from Cons.IH [OF this] show ?thesis
      using addIncident_cache_keys [of world generateHash t s h] Submit by auto
  next
    case (UpdateStatus ident st)
    with Cons.prems have "cache (run world generateHash acts (updateStatus ident st s)) h \<noteq> None"
      by simp
    from Cons.IH [OF this] show ?thesis
      using UpdateStatus by (auto simp add: updateStatus_def)
  qed
qed

text \<open>
  C5. For every text that is empty after trimming or shorter than 5 characters: the
  classification client throws before any backend call, and \<^verbatim>\<open>addIncident\<close> makes no
  backend call and does not change the cache. When no incident is cached under the
  fingerprint of the text, the submission is rejected: the result is \<^verbatim>\<open>null\<close> and only
  \<^verbatim>\<open>totalRequests\<close> has changed. That is so in every state reached from the initial one
  by submissions and status updates, as long as no valid text submitted before has the
  fingerprint of this one.
\<close>

theorem invalid_input_rejected:
  assumes "input_invalid rawText"
  shows "processIncidentWithAI world rawText g retryCount n =
           (Inl \<lparr> err_message = ''Input invalid.'', err_status = None \<rparr>, n)
     \<and> backendCalls (snd (addIncident world generateHash rawText s)) = backendCalls s
     \<and> cache (snd (addIncident world generateHash rawText s)) = cache s
     \<and> ((\<forall>h. generateHash rawText = Inr h \<longrightarrow> cache s h = None) \<longrightarrow>
          addIncident world generateHash rawText s =
            (None, s \<lparr> totalRequests := totalRequests s + 1, isAnalyzing := False \<rparr>))
     \<and> ((\<forall>t. Submit t \<in> set acts \<and> \<not> input_invalid t \<longrightarrow> generateHash t \<noteq> generateHash rawText) \<longrightarrow>
          addIncident world generateHash rawText (run world generateHash acts (initial_state g0)) =
            (None, (run world generateHash acts (initial_state g0))
                     \<lparr> totalRequests := totalRequests (run world generateHash acts (initial_state g0)) + 1,
                       isAnalyzing := False \<rparr>))"
proof -
  let ?s = "run world generateHash acts (initial_state g0)"
  have reach: "(\<forall>t. Submit t \<in> set acts \<and> \<not> input_invalid t \<longrightarrow> generateHash t \<noteq> generateHash rawText) \<longrightarrow>
          addIncident world generateHash rawText ?s =
            (None, ?s \<lparr> totalRequests := totalRequests ?s + 1, isAnalyzing := False \<rparr>)"
  proof
    assume nocoll: "\<forall>t. Submit t \<in> set acts \<and> \<not> input_invalid t \<longrightarrow> generateHash t \<noteq> generateHash rawText"
    have "\<forall>h. generateHash rawText = Inr h \<longrightarrow> cache ?s h = None"
    proof (intro allI impI)
      fix h assume h: "generateHash rawText = Inr h"
      show "cache ?s h = None"
      proof (rule ccontr)
        assume "cache ?s h \<noteq> None"
        from run_cache_keys [OF this]
        have "\<exists>t. Submit t \<in> set acts \<and> \<not> input_invalid t \<and> generateHash t = Inr h"
          by (simp add: initial_state_def)
        with nocoll h show False by auto
      qed
    qed
    with assms show "addIncident world generateHash rawText ?s =
            (None, ?s \<lparr> totalRequests := totalRequests ?s + 1, isAnalyzing := False \<rparr>)"
      by (rule addIncident_rejects_uncached)
  qed
  show ?thesis
    using assms reach addIncident_no_call_when_invalid [of rawText world generateHash s]
      addIncident_rejects_uncached [of rawText generateHash s world]
    by (simp add: processIncidentWithAI_invalid)
qed


lemma invalid_samples: "input_invalid ''hi'' \<and> input_invalid []"
  by (simp add: input_invalid_def)

theorem invalid_input_rejected_witness:
  "input_invalid ''hi''
   \<and> fst (addIncident (scripted_world [] (sample_attempt (Parsed (sample_payload (Some 7)) None)))
            sample_hash ''hi''
            (run (scripted_world [] (sample_attempt (Parsed (sample_payload (Some 7)) None)))
               sample_hash [Submit ''Fire on Main St''] (initial_state True))) = None
   \<and> backendCalls
        (snd (addIncident (scripted_world [] (sample_attempt (Parsed (sample_payload (Some 7)) None)))
            sample_hash ''hi''
            (run (scripted_world [] (sample_attempt (Parsed (sample_payload (Some 7)) None)))
               sample_hash [Submit ''Fire on Main St''] (initial_state True))))
       = backendCalls
           (run (scripted_world [] (sample_attempt (Parsed (sample_payload (Some 7)) None)))
               sample_hash [Submit ''Fire on Main St''] (initial_state True))"
  using invalid_input_rejected
    [of "''hi''" "scripted_world [] (sample_attempt (Parsed (sample_payload (Some 7)) None))"
        True 0 0 sample_hash
        "run (scripted_world [] (sample_attempt (Parsed (sample_payload (Some 7)) None)))
               sample_hash [Submit ''Fire on Main St''] (initial_state True)"
        "[Submit ''Fire on Main St'']" True]
    invalid_samples
  by (simp add: sample_hash_def)

lemma addIncident_try_counters:
  "totalRequests (snd (addIncident_try world generateHash rawText s)) = totalRequests s"
  by (simp add: addIncident_try_def getCachedIncident_def split: sum.splits option.splits prod.splits)

lemma addIncident_try_done:
  "addIncident_try world generateHash rawText s = (Inr inc, s') \<Longrightarrow> isAnalyzing s' = False"
  by (auto simp add: addIncident_try_def getCachedIncident_def
      split: sum.splits option.splits prod.splits)

text \<open>
  C9. \<^verbatim>\<open>addIncident\<close> returns an incident or \<^verbatim>\<open>null\<close> for every text and every state:
  when its \<^verbatim>\<open>try\<close> block throws, the result is \<^verbatim>\<open>null\<close>, and otherwise it is the incident
  of the block. That covers a fingerprint function that throws and the error
  \<^verbatim>\<open>Input invalid.\<close> of the classification client. Every invocation, rejected or not,
  increments \<^verbatim>\<open>totalRequests\<close> by exactly one (and leaves \<^verbatim>\<open>isAnalyzing\<close> false).
\<close>

theorem addIncident_never_throws:
  "totalRequests (snd (addIncident world generateHash rawText s)) = totalRequests s + 1
   \<and> isAnalyzing (snd (addIncident world generateHash rawText s)) = False
   \<and> (case addIncident_try world generateHash rawText
             (s \<lparr> totalRequests := totalRequests s + 1, isAnalyzing := True \<rparr>) of
        (Inl e, s') \<Rightarrow> fst (addIncident world generateHash rawText s) = None
      | (Inr inc, s') \<Rightarrow> addIncident world generateHash rawText s = (Some inc, s'))
   \<and> (\<forall>e. generateHash rawText = Inl e \<longrightarrow>
          addIncident world generateHash rawText s =
            (None, s \<lparr> totalRequests := totalRequests s + 1, isAnalyzing := False \<rparr>))
   \<and> (\<forall>h. generateHash rawText = Inr h \<and> cache s h = None \<and> input_invalid rawText \<longrightarrow>
          fst (addIncident_try world generateHash rawText
                 (s \<lparr> totalRequests := totalRequests s + 1, isAnalyzing := True \<rparr>))
            = Inl \<lparr> err_message = ''Input invalid.'', err_status = None \<rparr>
          \<and> addIncident world generateHash rawText s =
              (None, s \<lparr> totalRequests := totalRequests s + 1, isAnalyzing := False \<rparr>))"
proof -
  let ?s1 = "s \<lparr> totalRequests := totalRequests s + 1, isAnalyzing := True \<rparr>"
  obtain r s' where t: "addIncident_try world generateHash rawText ?s1 = (r, s')"
    by (cases "addIncident_try world generateHash rawText ?s1") auto
  have tr: "totalRequests s' = totalRequests s + 1"
    using addIncident_try_counters [of world generateHash rawText ?s1] t by simp
  have c1: "totalRequests (snd (addIncident world generateHash rawText s)) = totalRequests s + 1"
    using t tr by (cases r) (simp_all add: addIncident_def)
  have c2: "isAnalyzing (snd (addIncident world generateHash rawText s)) = False"
    using t addIncident_try_done [of world generateHash rawText ?s1] 
    by (cases r) (simp_all add: addIncident_def)
  have c3: "(case addIncident_try world generateHash rawText ?s1 of
        (Inl e, s') \<Rightarrow> fst (addIncident world generateHash rawText s) = None
      | (Inr inc, s') \<Rightarrow> addIncident world generateHash rawText s = (Some inc, s'))"
    using t by (cases r) (simp_all add: addIncident_def)
  have c4: "\<forall>e. generateHash rawText = Inl e \<longrightarrow>
          addIncident world generateHash rawText s =
            (None, s \<lparr> totalRequests := totalRequests s + 1, isAnalyzing := False \<rparr>)"
    by (simp add: addIncident_hash_throws)
  have c5: "\<forall>h. generateHash rawText = Inr h \<and> cache s h = None \<and> input_invalid rawText \<longrightarrow>
          fst (addIncident_try world generateHash rawText ?s1)
            = Inl \<lparr> err_message = ''Input invalid.'', err_status = None \<rparr>
          \<and> addIncident world generateHash rawText s =
              (None, s \<lparr> totalRequests := totalRequests s + 1, isAnalyzing := False \<rparr>)"
    by (simp add: addIncident_rejects addIncident_try_def getCachedIncident_def
        processIncidentWithAI_invalid)
  show ?thesis using c1 c2 c3 c4 c5 by blast
qed

theorem addIncident_never_throws_witness:
  "sample_hash ''hi'' = Inr ''sha:hi'' \<and> cache (initial_state True) ''sha:hi'' = None
   \<and> input_invalid ''hi''
   \<and> addIncident (scripted_world [] (sample_attempt (Fails (sample_error None))))
        sample_hash ''hi'' (initial_state True)
      = (None, (initial_state True) \<lparr> totalRequests := 1, isAnalyzing := False \<rparr>)"
  using addIncident_never_throws
    [of "scripted_world [] (sample_attempt (Fails (sample_error None)))"
        sample_hash "''hi''" "initial_state True"]
    invalid_samples
  by (simp add: sample_hash_def initial_state_def)

section \<open>Properties of double-precision rounding\<close>












section \<open>Properties of the health summary\<close>











section \<open>Properties of the diagnostics battery\<close>

lemma check_record_pass:
  "result_status (check_record clock t check) = PASS \<longleftrightarrow> (\<exists>u. snd check () = Inr u)"
  by (cases "snd check ()") (simp_all add: check_record_def)

lemma runTest_appends:
  "runTest clock (fst check) (snd check) (rs, t) = (rs @ [check_record clock t check], t + 2)"
  by (simp add: runTest_def check_record_def Let_def split: sum.splits)

lemma run_checks_records:
  "run_checks clock checks (rs, t) =
     (rs @ map (\<lambda>i. check_record clock (t + 2 * i) (checks ! i)) [0 ..< length checks],
      t + 2 * length checks)"
proof (induction checks arbitrary: rs t)
  case Nil
  then show ?case by simp
next
  case (Cons check checks)
  have "map (\<lambda>i. check_record clock (t + 2 * i) ((check # checks) ! i)) [0 ..< Suc (length checks)]
        = check_record clock t check
          # map (\<lambda>i. check_record clock (t + 2 + 2 * i) (checks ! i)) [0 ..< length checks]"
    by (simp add: map_upt_Suc del: upt_Suc)
  then show ?case
    by (simp add: runTest_appends Cons.IH del: upt_Suc)
qed

text \<open>
  C8. Whatever the bodies of the checks do, the battery produces one record per check,
  in order and under the name of the check: a body that returns gives PASS, a body that
  throws gives FAIL with the message of the error, and the checks after it still run.
  Each record is timed by the two clock readings taken around its own body. The suite
  passes exactly when every record is PASS, that is when every body returned.
  \<^verbatim>\<open>runSuite\<close> is this battery on its four checks: it always returns the four records, and
  when the fingerprint function throws, the third is FAIL with that message and the
  fourth is PASS.
\<close>

theorem diagnostics_fault_isolated:
  "length (fst (run_checks clock checks ([], t))) = length checks
   \<and> (\<forall>i<length checks.
         name (fst (run_checks clock checks ([], t)) ! i) = fst (checks ! i)
         \<and> duration (fst (run_checks clock checks ([], t)) ! i)
             = clock (t + 2 * i + 1) - clock (t + 2 * i)
         \<and> (case snd (checks ! i) () of
               Inr u \<Rightarrow> result_status (fst (run_checks clock checks ([], t)) ! i) = PASS
                        \<and> message (fst (run_checks clock checks ([], t)) ! i) = None
             | Inl e \<Rightarrow> result_status (fst (run_checks clock checks ([], t)) ! i) = FAIL
                        \<and> message (fst (run_checks clock checks ([], t)) ! i)
                            = Some (err_message e)))
   \<and> (suitePass (fst (run_checks clock checks ([], t)))
        \<longleftrightarrow> (\<forall>r\<in>set (fst (run_checks clock checks ([], t))). result_status r = PASS))
   \<and> (suitePass (fst (run_checks clock checks ([], t)))
        \<longleftrightarrow> (\<forall>i<length checks. \<exists>u. snd (checks ! i) () = Inr u))
   \<and> runSuite clock isoNow generateHash t
        = run_checks clock (suite_checks isoNow generateHash) ([], t)
   \<and> map name (fst (runSuite clock isoNow generateHash t))
        = [''Model Data Integrity'', ''Geospatial Bounds Logic'',
           ''Cache Storage Quota Check'', ''State Immutability'']
   \<and> (\<forall>e. generateHash ''test_payload'' = Inl e \<and> isoNow \<noteq> [] \<longrightarrow>
          map result_status (fst (runSuite clock isoNow generateHash t)) = [PASS, PASS, FAIL, PASS]
          \<and> message (fst (runSuite clock isoNow generateHash t) ! 2) = Some (err_message e))"
proof -
  let ?rs = "fst (run_checks clock checks ([], t))"
  have rs: "?rs = map (\<lambda>i. check_record clock (t + 2 * i) (checks ! i)) [0 ..< length checks]"
    by (simp add: run_checks_records)
  have len: "length ?rs = length checks" by (simp add: rs)
  have nth: "\<forall>i<length checks. ?rs ! i = check_record clock (t + 2 * i) (checks ! i)"
    by (simp add: rs)
  have each: "\<forall>i<length checks.
         name (?rs ! i) = fst (checks ! i)
         \<and> duration (?rs ! i) = clock (t + 2 * i + 1) - clock (t + 2 * i)
         \<and> (case snd (checks ! i) () of
               Inr u \<Rightarrow> result_status (?rs ! i) = PASS \<and> message (?rs ! i) = None
             | Inl e \<Rightarrow> result_status (?rs ! i) = FAIL
                        \<and> message (?rs ! i) = Some (err_message e))"
    using nth by (simp add: check_record_def split: sum.splits)
  have pass1: "suitePass ?rs \<longleftrightarrow> (\<forall>r\<in>set ?rs. result_status r = PASS)"
    by (simp add: suitePass_def list_all_iff)
  have pass2: "suitePass ?rs \<longleftrightarrow> (\<forall>i<length checks. \<exists>u. snd (checks ! i) () = Inr u)"
  proof -
    have "suitePass ?rs \<longleftrightarrow> (\<forall>i<length ?rs. result_status (?rs ! i) = PASS)"
      by (simp add: suitePass_def list_all_length)
    also have "\<dots> \<longleftrightarrow> (\<forall>i<length checks. result_status (check_record clock (t + 2 * i) (checks ! i)) = PASS)"
      using len nth by auto
    also have "\<dots> \<longleftrightarrow> (\<forall>i<length checks. \<exists>u. snd (checks ! i) () = Inr u)"
      by (simp add: check_record_pass)
    finally show ?thesis .
  qed
  have suite: "runSuite clock isoNow generateHash t
        = run_checks clock (suite_checks isoNow generateHash) ([], t)"
    by (simp add: runSuite_def)
  have names: "map name (fst (runSuite clock isoNow generateHash t))
        = [''Model Data Integrity'', ''Geospatial Bounds Logic'',
           ''Cache Storage Quota Check'', ''State Immutability'']"
    by (simp add: runSuite_def suite_checks_def runTest_def Let_def split: sum.splits)
  have broken: "\<forall>e. generateHash ''test_payload'' = Inl e \<and> isoNow \<noteq> [] \<longrightarrow>
          map result_status (fst (runSuite clock isoNow generateHash t)) = [PASS, PASS, FAIL, PASS]
          \<and> message (fst (runSuite clock isoNow generateHash t) ! 2) = Some (err_message e)"
    by (simp add: runSuite_def suite_checks_def runTest_def Let_def data_integrity_check_def
        geospatial_check_def cache_hash_check_def immutability_check_def)
  show ?thesis
    by (intro conjI) (rule len, rule each, rule pass1, rule pass2, rule suite, rule names, rule broken)
qed


theorem diagnostics_fault_isolated_witness:
  "failing_hash ''test_payload'' = Inl (sample_error None)
   \<and> ''2024-01-01T00:00:00.000Z'' \<noteq> []
   \<and> map result_status (fst (runSuite sample_clock ''2024-01-01T00:00:00.000Z'' failing_hash 0))
       = [PASS, PASS, FAIL, PASS]
   \<and> message (fst (runSuite sample_clock ''2024-01-01T00:00:00.000Z'' failing_hash 0) ! 2)
       = Some ''request failed''
   \<and> \<not> suitePass (fst (runSuite sample_clock ''2024-01-01T00:00:00.000Z'' failing_hash 0))"
proof -
  let ?iso = "''2024-01-01T00:00:00.000Z''"
  let ?rs = "fst (runSuite sample_clock ?iso failing_hash 0)"
  note t = diagnostics_fault_isolated
    [of sample_clock "suite_checks ?iso failing_hash" 0 ?iso failing_hash]
  have h: "failing_hash ''test_payload'' = Inl (sample_error None) \<and> ?iso \<noteq> []"
    by (simp add: failing_hash_def)
  from t have "\<forall>e. failing_hash ''test_payload'' = Inl e \<and> ?iso \<noteq> [] \<longrightarrow>
          map result_status ?rs = [PASS, PASS, FAIL, PASS]
          \<and> message (?rs ! 2) = Some (err_message e)"
    by (elim conjE)
  with h have r: "map result_status ?rs = [PASS, PASS, FAIL, PASS]
          \<and> message (?rs ! 2) = Some (err_message (sample_error None))"
    by blast
  have "suitePass ?rs = list_all (\<lambda>st. st = PASS) (map result_status ?rs)"
    by (simp add: suitePass_def list.pred_map comp_def)
  with r have "\<not> suitePass ?rs" by simp
  with h r show ?thesis by (simp add: sample_error_def)
qed

end
